theory Spec2Isabelle
  imports Main
begin

section \<open>Strings\<close>

text \<open>
  Python strings are modelled as \<open>string\<close>. Comparison, concatenation and the
  replacement of one character by another are modelled directly. The methods
  \<open>str.lower\<close> and \<open>str.title\<close> follow the case mappings of the Unicode character
  database, which is part of the language and not of this repository: they are
  parameters \<open>str_lower\<close> and \<open>str_title\<close> of the getters that call them, and every
  property below is stated for all values of these parameters.

  For evaluating the getters at concrete strings, \<open>ascii_lower\<close> and \<open>ascii_title\<close>
  are the two methods on strings of ASCII characters (with the letters of the
  constants \<open>ascii_lowercase\<close> and \<open>ascii_uppercase\<close> of Python's \<open>string\<close> module);
  they are used on such strings only.
\<close>

definition ascii_lowercase :: string where
  "ascii_lowercase = ''abcdefghijklmnopqrstuvwxyz''"

definition ascii_uppercase :: string where
  "ascii_uppercase = ''ABCDEFGHIJKLMNOPQRSTUVWXYZ''"

definition is_ascii_lower :: "char \<Rightarrow> bool" where
  "is_ascii_lower c = (c \<in> set ascii_lowercase)"

definition is_ascii_upper :: "char \<Rightarrow> bool" where
  "is_ascii_upper c = (c \<in> set ascii_uppercase)"

definition ascii_upper_char :: "char \<Rightarrow> char" where
  "ascii_upper_char c =
     (case map_of (zip ascii_lowercase ascii_uppercase) c of Some d \<Rightarrow> d | None \<Rightarrow> c)"

definition ascii_lower_char :: "char \<Rightarrow> char" where
  "ascii_lower_char c =
     (case map_of (zip ascii_uppercase ascii_lowercase) c of Some d \<Rightarrow> d | None \<Rightarrow> c)"

text \<open>\<open>str.lower()\<close> on a string of ASCII characters.\<close>

definition ascii_lower :: "string \<Rightarrow> string" where
  "ascii_lower s = map ascii_lower_char s"

text \<open>
  \<open>str.title()\<close> on a string of ASCII characters: a letter that follows a character
  that is not a letter (or starts the string) is made upper case, a letter that
  follows a letter is made lower case.
\<close>

fun title_from :: "bool \<Rightarrow> string \<Rightarrow> string" where
  "title_from previous_is_cased [] = []"
| "title_from previous_is_cased (c # cs) =
     (if is_ascii_lower c then
        (if previous_is_cased then c else ascii_upper_char c) # title_from True cs
      else if is_ascii_upper c then
        (if previous_is_cased then ascii_lower_char c else c) # title_from True cs
      else c # title_from False cs)"

definition ascii_title :: "string \<Rightarrow> string" where
  "ascii_title s = title_from False s"

text \<open>\<open>str.replace(old, new)\<close> for one-character \<open>old\<close> and \<open>new\<close>.\<close>

definition str_replace :: "char \<Rightarrow> char \<Rightarrow> string \<Rightarrow> string" where
  "str_replace old new s = map (\<lambda>c. if c = old then new else c) s"


section \<open>The plot configuration box\<close>

text \<open>
  \<open>PlotConfigurationBox\<close> of \<open>plot_configuration_box.py\<close>. Each widget is modelled by
  the part of its state that the class reads or writes: the text of a \<open>TextInput\<close>,
  the value of a \<open>Switch\<close>, the \<open>style.visibility\<close> of a widget. The legend switch
  exists only when the box was constructed with \<open>has_legend\<close>, hence the option.
\<close>

datatype visibility = HIDDEN | VISIBLE

record plot_configuration_box =
  title_input :: string
  xlabel_input :: string
  ylabel_input :: string
  grid_switch :: bool
  legend_switch :: "bool option"
  x_domain_switch :: bool
  x_min_title :: visibility
  x_min_input :: string
  x_min_input_visibility :: visibility
  x_max_title :: visibility
  x_max_input :: string
  x_max_input_visibility :: visibility
  x_log_scale_switch :: bool
  y_log_scale_switch :: bool
  has_legend :: bool
  base_name :: "string option"
  xcolumn :: "string option"
  ycolumn :: "string option"
  suffix :: string

datatype error =
    ValueError
  | AttributeError
  | EddingtonException string
  | OtherError string

text \<open>
  \<open>__init__(additional_instructions, suffix, has_legend)\<close>: text inputs start empty,
  switches start off, the four widgets of the custom domain start hidden. The callback
  \<open>additional_instructions\<close> is only called by \<open>build_figure_builder\<close> and is passed
  to it as an argument below.
\<close>

definition init :: "string \<Rightarrow> bool \<Rightarrow> plot_configuration_box" where
  "init suffix0 has_legend0 =
     \<lparr> title_input = '''', xlabel_input = '''', ylabel_input = '''',
       grid_switch = False,
       legend_switch = (if has_legend0 then Some False else None),
       x_domain_switch = False,
       x_min_title = HIDDEN, x_min_input = '''', x_min_input_visibility = HIDDEN,
       x_max_title = HIDDEN, x_max_input = '''', x_max_input_visibility = HIDDEN,
       x_log_scale_switch = False, y_log_scale_switch = False,
       has_legend = has_legend0,
       base_name = None, xcolumn = None, ycolumn = None,
       suffix = suffix0 \<rparr>"

subsection \<open>Derived getters\<close>

definition title :: "(string \<Rightarrow> string) \<Rightarrow> plot_configuration_box \<Rightarrow> string" where
  "title str_title s =
     (if title_input s \<noteq> '''' then title_input s
      else case base_name s of
             Some b \<Rightarrow> b @ '' - '' @ str_title (suffix s)
           | None \<Rightarrow> suffix s)"

definition file_name :: "(string \<Rightarrow> string) \<Rightarrow> plot_configuration_box \<Rightarrow> string" where
  "file_name str_lower s =
     (let name =
        (case base_name s of
           Some b \<Rightarrow>
             str_replace CHR '' '' CHR ''_'' b @ ''_''
               @ str_replace CHR '' '' CHR ''_'' (suffix s) @ ''.png''
         | None \<Rightarrow> str_replace CHR '' '' CHR ''_'' (suffix s) @ ''.png'')
      in str_lower name)"

definition xlabel :: "plot_configuration_box \<Rightarrow> string option" where
  "xlabel s =
     (if xlabel_input s \<noteq> '''' then Some (xlabel_input s)
      else case xcolumn s of Some c \<Rightarrow> Some c | None \<Rightarrow> None)"

definition ylabel :: "plot_configuration_box \<Rightarrow> string option" where
  "ylabel s =
     (if ylabel_input s \<noteq> '''' then Some (ylabel_input s)
      else case ycolumn s of Some c \<Rightarrow> Some c | None \<Rightarrow> None)"

definition grid :: "plot_configuration_box \<Rightarrow> bool" where
  "grid s = grid_switch s"

text \<open>\<open>self.__legend_switch is not None and self.__legend_switch.value\<close>.\<close>

definition legend :: "plot_configuration_box \<Rightarrow> bool" where
  "legend s = (case legend_switch s of None \<Rightarrow> False | Some v \<Rightarrow> v)"

definition x_log_scale :: "plot_configuration_box \<Rightarrow> bool" where
  "x_log_scale s = x_log_scale_switch s"

definition y_log_scale :: "plot_configuration_box \<Rightarrow> bool" where
  "y_log_scale s = y_log_scale_switch s"

text \<open>
  The builtin \<open>float\<close> is a parameter \<open>float_py\<close> of the getters that call it:
  \<open>float_py t = None\<close> where \<open>float(t)\<close> raises \<open>ValueError\<close>, and \<open>Some v\<close> where
  it returns \<open>v\<close>. The type \<open>'f\<close> of the values is left open.
\<close>

definition xmin :: "(string \<Rightarrow> 'f option) \<Rightarrow> plot_configuration_box \<Rightarrow> error + 'f option" where
  "xmin float_py s =
     (if \<not> x_domain_switch s \<or> x_min_input s = '''' then Inr None
      else case float_py (x_min_input s) of
             Some v \<Rightarrow> Inr (Some v)
           | None \<Rightarrow> Inl (EddingtonException ''X minimum value must a floating number''))"

definition xmax :: "(string \<Rightarrow> 'f option) \<Rightarrow> plot_configuration_box \<Rightarrow> error + 'f option" where
  "xmax float_py s =
     (if \<not> x_domain_switch s \<or> x_max_input s = '''' then Inr None
      else case float_py (x_max_input s) of
             Some v \<Rightarrow> Inr (Some v)
           | None \<Rightarrow> Inl (EddingtonException ''X maximum value must a floating number''))"

text \<open>
  An instance of \<open>float_py\<close> for evaluating the getters at concrete texts: the builtin
  on optionally signed decimal integer literals, whose value is the integer. Every
  other text is rejected by this instance, as the builtin rejects a text of letters
  such as \<open>abc\<close>.
\<close>

definition digit_value :: "char \<Rightarrow> int option" where
  "digit_value c = map_of (zip ''0123456789'' [0, 1, 2, 3, 4, 5, 6, 7, 8, 9]) c"

fun digits_value :: "int \<Rightarrow> string \<Rightarrow> int option" where
  "digits_value acc [] = Some acc"
| "digits_value acc (c # cs) =
     (case digit_value c of
        None \<Rightarrow> None
      | Some d \<Rightarrow> digits_value (10 * acc + d) cs)"

definition float_int_literal :: "string \<Rightarrow> int option" where
  "float_int_literal t =
     (case t of
        [] \<Rightarrow> None
      | c # cs \<Rightarrow>
          if c = CHR ''-'' then (if cs = [] then None else map_option uminus (digits_value 0 cs))
          else if c = CHR ''+'' then (if cs = [] then None else digits_value 0 cs)
          else digits_value 0 t)"

text \<open>\<open>Interval(min_val=self.xmin, max_val=self.xmax)\<close>: the pair of optional bounds.\<close>

record 'f interval =
  min_val :: "'f option"
  max_val :: "'f option"

definition interval :: "(string \<Rightarrow> 'f option) \<Rightarrow> plot_configuration_box \<Rightarrow> error + 'f interval" where
  "interval float_py s =
     (case xmin float_py s of
        Inl e \<Rightarrow> Inl e
      | Inr mn \<Rightarrow>
          (case xmax float_py s of
             Inl e \<Rightarrow> Inl e
           | Inr mx \<Rightarrow> Inr \<lparr> min_val = mn, max_val = mx \<rparr>))"

subsection \<open>The keyword arguments\<close>

text \<open>
  The dictionary built by \<open>get_plot_kwargs\<close> is an association list in insertion
  order; its values are strings, optional strings, flags and optional bounds. The
  getters are read in the order of the source, so the first one that raises decides
  the failure.
\<close>

datatype 'f kwarg = Str string | OptStr "string option" | Flag bool | Bound "'f option"

definition get_plot_kwargs ::
  "(string \<Rightarrow> string) \<Rightarrow> (string \<Rightarrow> 'f option) \<Rightarrow> plot_configuration_box \<Rightarrow>
   error + (string \<times> 'f kwarg) list" where
  "get_plot_kwargs str_title float_py s =
     (case xmin float_py s of
        Inl e \<Rightarrow> Inl e
      | Inr mn \<Rightarrow>
          (case xmax float_py s of
             Inl e \<Rightarrow> Inl e
           | Inr mx \<Rightarrow>
               (let kwargs =
                  [(''title_name'', Str (title str_title s)),
                   (''xlabel'', OptStr (xlabel s)),
                   (''ylabel'', OptStr (ylabel s)),
                   (''grid'', Flag (grid s)),
                   (''x_log_scale'', Flag (x_log_scale s)),
                   (''y_log_scale'', Flag (y_log_scale s)),
                   (''xmin'', Bound mn),
                   (''xmax'', Bound mx)]
                in Inr (if has_legend s then kwargs @ [(''legend'', Flag (legend s))]
                        else kwargs))))"

subsection \<open>Handlers\<close>

definition on_fitting_function_load ::
  "string option \<Rightarrow> plot_configuration_box \<Rightarrow> plot_configuration_box" where
  "on_fitting_function_load fitting_function s =
     s\<lparr>base_name := (case fitting_function of None \<Rightarrow> None | Some title_name \<Rightarrow> Some title_name)\<rparr>"

definition on_fitting_data_load ::
  "(string \<times> string) option \<Rightarrow> plot_configuration_box \<Rightarrow> plot_configuration_box" where
  "on_fitting_data_load fitting_data s =
     (case fitting_data of
        None \<Rightarrow> s\<lparr>xcolumn := None, ycolumn := None\<rparr>
      | Some (x_column, y_column) \<Rightarrow> s\<lparr>xcolumn := Some x_column, ycolumn := Some y_column\<rparr>)"

definition x_domain_switch_handler :: "plot_configuration_box \<Rightarrow> plot_configuration_box" where
  "x_domain_switch_handler s =
     (if x_domain_switch s then
        s\<lparr>x_min_title := VISIBLE, x_min_input_visibility := VISIBLE,
          x_max_title := VISIBLE, x_max_input_visibility := VISIBLE\<rparr>
      else
        s\<lparr>x_min_input := '''', x_max_input := '''',
          x_min_title := HIDDEN, x_min_input_visibility := HIDDEN,
          x_max_title := HIDDEN, x_max_input_visibility := HIDDEN\<rparr>)"

text \<open>
  A toggle of the custom-domain switch: the toolkit flips the value of the switch and
  then calls its \<open>on_change\<close>, which is \<open>x_domain_switch_handler\<close>.
\<close>

definition toggle_x_domain_switch :: "plot_configuration_box \<Rightarrow> plot_configuration_box" where
  "toggle_x_domain_switch s =
     x_domain_switch_handler (s\<lparr>x_domain_switch := \<not> x_domain_switch s\<rparr>)"

definition toggle_grid_switch :: "plot_configuration_box \<Rightarrow> plot_configuration_box" where
  "toggle_grid_switch s = s\<lparr>grid_switch := \<not> grid_switch s\<rparr>"

text \<open>\<open>self.__legend_switch.toggle()\<close> on a box without legend switch is an attribute
  error on \<open>None\<close>.\<close>

definition toggle_legend_switch :: "plot_configuration_box \<Rightarrow> error + plot_configuration_box" where
  "toggle_legend_switch s =
     (case legend_switch s of
        None \<Rightarrow> Inl AttributeError
      | Some v \<Rightarrow> Inr (s\<lparr>legend_switch := Some (\<not> v)\<rparr>))"

definition toggle_x_log_scale :: "plot_configuration_box \<Rightarrow> plot_configuration_box" where
  "toggle_x_log_scale s = s\<lparr>x_log_scale_switch := \<not> x_log_scale_switch s\<rparr>"

definition toggle_y_log_scale :: "plot_configuration_box \<Rightarrow> plot_configuration_box" where
  "toggle_y_log_scale s = s\<lparr>y_log_scale_switch := \<not> y_log_scale_switch s\<rparr>"

text \<open>
  The states of a box constructed with the given \<open>has_legend\<close>: the constructed state,
  and every state reached from it by the user editing a text input or toggling a
  switch, and by the handlers above.
\<close>

inductive reachable :: "bool \<Rightarrow> plot_configuration_box \<Rightarrow> bool" for hl :: bool where
  constructed: "reachable hl (init sfx hl)"
| edit_title: "reachable hl s \<Longrightarrow> reachable hl (s\<lparr>title_input := t\<rparr>)"
| edit_xlabel: "reachable hl s \<Longrightarrow> reachable hl (s\<lparr>xlabel_input := t\<rparr>)"
| edit_ylabel: "reachable hl s \<Longrightarrow> reachable hl (s\<lparr>ylabel_input := t\<rparr>)"
| edit_x_min: "reachable hl s \<Longrightarrow> reachable hl (s\<lparr>x_min_input := t\<rparr>)"
| edit_x_max: "reachable hl s \<Longrightarrow> reachable hl (s\<lparr>x_max_input := t\<rparr>)"
| grid_toggled: "reachable hl s \<Longrightarrow> reachable hl (toggle_grid_switch s)"
| legend_toggled: "reachable hl s \<Longrightarrow> toggle_legend_switch s = Inr s' \<Longrightarrow> reachable hl s'"
| x_log_toggled: "reachable hl s \<Longrightarrow> reachable hl (toggle_x_log_scale s)"
| y_log_toggled: "reachable hl s \<Longrightarrow> reachable hl (toggle_y_log_scale s)"
| x_domain_toggled: "reachable hl s \<Longrightarrow> reachable hl (toggle_x_domain_switch s)"
| function_loaded: "reachable hl s \<Longrightarrow> reachable hl (on_fitting_function_load f s)"
| data_loaded: "reachable hl s \<Longrightarrow> reachable hl (on_fitting_data_load d s)"

subsection \<open>The figure builder\<close>

text \<open>
  The external \<open>FigureBuilder\<close> accumulates instructions: it is the list of the
  instructions added so far. \<open>plot_instruction\<close> stands for the instructions that the
  callback \<open>additional_instructions\<close> adds. The callback receives the builder and the
  interval and leaves the builder updated. \<open>build_figure_builder\<close> returns the builder
  together with the calls it made to the callback, each with the arguments passed.
  \<open>self.title\<close> is a string, so the test \<open>self.title is not None\<close> always succeeds.
\<close>

datatype 'x instruction =
    add_title string
  | add_xlabel string
  | add_ylabel string
  | add_grid
  | add_legend
  | plot_instruction 'x

type_synonym 'x figure_builder = "'x instruction list"

definition build_figure_builder ::
  "(string \<Rightarrow> string) \<Rightarrow> (string \<Rightarrow> 'f option) \<Rightarrow>
   ('x figure_builder \<Rightarrow> 'f interval \<Rightarrow> 'x figure_builder) \<Rightarrow>
   plot_configuration_box \<Rightarrow> error + ('x figure_builder \<times> ('x figure_builder \<times> 'f interval) list)" where
  "build_figure_builder str_title float_py additional_instructions s =
     (let figure_builder = [];
          figure_builder =
            (if Some (title str_title s) \<noteq> None
             then figure_builder @ [add_title (title str_title s)]
             else figure_builder);
          figure_builder =
            (case xlabel s of
               Some l \<Rightarrow> figure_builder @ [add_xlabel l]
             | None \<Rightarrow> figure_builder);
          figure_builder =
            (case ylabel s of
               Some l \<Rightarrow> figure_builder @ [add_ylabel l]
             | None \<Rightarrow> figure_builder);
          figure_builder = (if grid s then figure_builder @ [add_grid] else figure_builder);
          figure_builder = (if legend s then figure_builder @ [add_legend] else figure_builder)
      in case interval float_py s of
           Inl e \<Rightarrow> Inl e
         | Inr iv \<Rightarrow> Inr (additional_instructions figure_builder iv, [(figure_builder, iv)]))"


text \<open>
  An instance of the callback for evaluating \<open>build_figure_builder\<close> at concrete
  states: it adds one instruction of its own.
\<close>

definition plot_data :: "unit figure_builder \<Rightarrow> int interval \<Rightarrow> unit figure_builder" where
  "plot_data figure_builder iv = figure_builder @ [plot_instruction ()]"

subsection \<open>The title as the specification words it\<close>

text \<open>
  The specification describes the title without explicit input as the string
  \<open><base name> - <suffix>\<close> title-cased. Read as it is written, the title case is
  applied to the whole string. This definition follows those words; it is compared
  with \<open>title\<close>, which follows the source.
\<close>

definition title_as_specified :: "(string \<Rightarrow> string) \<Rightarrow> plot_configuration_box \<Rightarrow> string" where
  "title_as_specified str_title s =
     (if title_input s \<noteq> [] then title_input s
      else case base_name s of
             Some b \<Rightarrow> str_title (b @ '' - '' @ suffix s)
           | None \<Rightarrow> suffix s)"


section \<open>Paths\<close>

text \<open>
  \<open>pathlib.Path\<close> in its POSIX flavour: a path is a root and the list of its
  components, where empty components and \<open>.\<close> components are dropped. \<open>name\<close> is the
  last component and \<open>path_suffix\<close> is the property \<open>suffix\<close>: the part of the name
  from its last dot on, when that dot is neither the first nor the last character.
\<close>

fun split :: "char \<Rightarrow> string \<Rightarrow> string list" where
  "split sep [] = [[]]"
| "split sep (c # cs) =
     (if c = sep then [] # split sep cs
      else case split sep cs of
             [] \<Rightarrow> [[c]]
           | p # ps \<Rightarrow> (c # p) # ps)"

datatype path = PurePath (root: string) (parts: "string list")

definition Path :: "string \<Rightarrow> path" where
  "Path p =
     (let n = length (takeWhile (\<lambda>c. c = CHR ''/'') p)
      in PurePath (if n = 0 then [] else if n = 2 then ''//'' else ''/'')
           (filter (\<lambda>x. x \<noteq> [] \<and> x \<noteq> ''.'') (split CHR ''/'' p)))"

definition name :: "path \<Rightarrow> string" where
  "name p = (if parts p = [] then [] else last (parts p))"

text \<open>\<open>str.rfind\<close> for a one-character pattern: the last index of it, or \<open>-1\<close>.\<close>

fun rfind_from :: "char \<Rightarrow> string \<Rightarrow> int \<Rightarrow> int \<Rightarrow> int" where
  "rfind_from c [] i found = found"
| "rfind_from c (x # xs) i found = rfind_from c xs (i + 1) (if x = c then i else found)"

definition rfind :: "char \<Rightarrow> string \<Rightarrow> int" where
  "rfind c s = rfind_from c s 0 (- 1)"

definition path_suffix :: "path \<Rightarrow> string" where
  "path_suffix p =
     (let nm = name p; i = rfind CHR ''.'' nm
      in if 0 < i \<and> i < int (length nm) - 1 then drop (nat i) nm else [])"


section \<open>The input file box\<close>

text \<open>
  \<open>InputFileBox\<close> of \<open>input_file_box.py\<close>. An instance holds the text of its read-only
  path input, the items and the enabled flag of its sheet selection, and its data
  dictionary (of an open type \<open>'d\<close>). The list \<open>__handlers\<close> is an attribute of the
  class: no instance ever assigns it, \<open>add_handler\<close> appends to the list that the
  class holds. So the model keeps one list of handlers beside the instances, which
  are addressed by number.

  Handlers are callables of other components; they are identified by number, and a
  call of one is recorded in the trace with its argument. The trace also records the
  error dialogs shown by the main window and the calls of the external readers. The
  box is taken to be attached to its main window (\<open>set_main_window\<close> has been
  called): the window gives the outcome of the file dialog and shows the error dialogs.
\<close>

type_synonym handler = nat

datatype 'd event =
    handler_called handler "'d option"
  | error_dialog string string
  | open_workbook_called string
  | read_data_from_excel_called path string

record 'd input_file_box =
  input_file_path_text :: string
  select_sheet_items :: "string list"
  select_sheet_enabled :: bool
  data_dict_attr :: "'d option"

record 'd world =
  handlers :: "handler list"
  boxes :: "nat \<Rightarrow> 'd input_file_box"
  trace :: "'d event list"

text \<open>\<open>__init__\<close>: an empty path, a disabled selection without items, no data.\<close>

definition new_box :: "'d input_file_box" where
  "new_box =
     \<lparr> input_file_path_text = [], select_sheet_items = [], select_sheet_enabled = False,
       data_dict_attr = None \<rparr>"

definition initial_world :: "'d world" where
  "initial_world = \<lparr> handlers = [], boxes = (\<lambda>i. new_box), trace = [] \<rparr>"

definition file_path :: "nat \<Rightarrow> 'd world \<Rightarrow> string" where
  "file_path i w = input_file_path_text (boxes w i)"

definition set_file_path :: "nat \<Rightarrow> string \<Rightarrow> 'd world \<Rightarrow> 'd world" where
  "set_file_path i p w = w\<lparr>boxes := (boxes w)(i := (boxes w i)\<lparr>input_file_path_text := p\<rparr>)\<rparr>"

definition sheets_options :: "nat \<Rightarrow> 'd world \<Rightarrow> string list" where
  "sheets_options i w = select_sheet_items (boxes w i)"

definition set_sheets_options :: "nat \<Rightarrow> string list option \<Rightarrow> 'd world \<Rightarrow> 'd world" where
  "set_sheets_options i options w =
     (case options of
        None \<Rightarrow>
          w\<lparr>boxes := (boxes w)(i := (boxes w i)\<lparr>select_sheet_items := [],
                                                 select_sheet_enabled := False\<rparr>)\<rparr>
      | Some items \<Rightarrow>
          w\<lparr>boxes := (boxes w)(i := (boxes w i)\<lparr>select_sheet_items := items,
                                                 select_sheet_enabled := True\<rparr>)\<rparr>)"

definition data_dict :: "nat \<Rightarrow> 'd world \<Rightarrow> 'd option" where
  "data_dict i w = data_dict_attr (boxes w i)"

text \<open>The loop \<open>for handler in self.__handlers: handler(data_dict)\<close>.\<close>

primrec call_handlers :: "handler list \<Rightarrow> 'd option \<Rightarrow> 'd event list \<Rightarrow> 'd event list" where
  "call_handlers [] d tr = tr"
| "call_handlers (h # hs) d tr = call_handlers hs d (tr @ [handler_called h d])"

definition set_data_dict :: "nat \<Rightarrow> 'd option \<Rightarrow> 'd world \<Rightarrow> 'd world" where
  "set_data_dict i d w =
     (let w1 = w\<lparr>boxes := (boxes w)(i := (boxes w i)\<lparr>data_dict_attr := d\<rparr>)\<rparr>
      in w1\<lparr>trace := call_handlers (handlers w1) d (trace w1)\<rparr>)"

definition add_handler :: "nat \<Rightarrow> handler \<Rightarrow> 'd world \<Rightarrow> 'd world" where
  "add_handler i h w = w\<lparr>handlers := handlers w @ [h]\<rparr>"

text \<open>
  \<open>select_file\<close>. The outcome of the file dialog is \<open>None\<close> when the dialog raises
  \<open>ValueError\<close> (the user cancelled) and \<open>Some p\<close> when it returns the path \<open>p\<close>.
  \<open>sheet_names p\<close> is the outcome of \<open>xlrd.open_workbook(p, on_demand=True).sheet_names()\<close>:
  the names in file order, or the exception raised when the workbook cannot be opened.
  \<open>NO_VALUE\<close> of \<open>eddington_gui.consts\<close> is the parameter \<open>no_value\<close>. A function that
  can raise returns the raised exception, if any, with the world as it is left.
\<close>

definition select_file ::
  "string \<Rightarrow> string option \<Rightarrow> (string \<Rightarrow> error + string list) \<Rightarrow> nat \<Rightarrow> 'd world \<Rightarrow>
   error option \<times> 'd world" where
  "select_file no_value dialog sheet_names i w =
     (case dialog of
        None \<Rightarrow> (None, w)
      | Some input_file_path \<Rightarrow>
          (let w1 = set_file_path i input_file_path w
           in if path_suffix (Path input_file_path) \<in> set [''.xlsx'', ''.xls''] then
                (let w2 = w1\<lparr>trace := trace w1 @ [open_workbook_called input_file_path]\<rparr>
                 in case sheet_names input_file_path of
                      Inl e \<Rightarrow> (Some e, w2)
                    | Inr names \<Rightarrow>
                        (None, set_data_dict i None
                                 (set_sheets_options i (Some ([no_value] @ names)) w2)))
              else (None, set_data_dict i None (set_sheets_options i None w1))))"

text \<open>
  \<open>select_sheet\<close>, with \<open>value\<close> the value of the widget. The external
  \<open>read_data_from_excel\<close> returns a data dictionary, raises \<open>InvalidDataFile\<close>, or
  raises something else.
\<close>

datatype 'd read_outcome = Dataset 'd | InvalidDataFile | Raises error

definition error_message :: "string \<Rightarrow> path \<Rightarrow> string" where
  "error_message value file_path_value =
     [CHR 0x22] @ value @ [CHR 0x22] @ '' sheet in '' @ [CHR 0x22] @ name file_path_value
       @ [CHR 0x22] @ '' has invalid syntax''"

definition select_sheet ::
  "string \<Rightarrow> (path \<Rightarrow> string \<Rightarrow> 'd read_outcome) \<Rightarrow> nat \<Rightarrow> string \<Rightarrow> 'd world \<Rightarrow>
   error option \<times> 'd world" where
  "select_sheet no_value read_data_from_excel i value w =
     (if value = no_value then (None, set_data_dict i None w)
      else
        (let file_path_value = Path (file_path i w);
             w1 = w\<lparr>trace := trace w @ [read_data_from_excel_called file_path_value value]\<rparr>
         in case read_data_from_excel file_path_value value of
              Dataset d \<Rightarrow> (None, set_data_dict i (Some d) w1)
            | InvalidDataFile \<Rightarrow>
                (let w2 = w1\<lparr>trace := trace w1 @
                            [error_dialog ''Invalid Input Source''
                               (error_message value file_path_value)]\<rparr>
                 in (None, set_data_dict i None w2))
            | Raises e \<Rightarrow> (Some e, w1)))"


text \<open>
  Instances of the external readers for evaluating the two functions at concrete
  inputs: a workbook that cannot be opened, a workbook with two sheets, and a data
  reader that accepts the first sheet, finds the second invalid and fails otherwise.
\<close>

definition unreadable_workbook :: "string \<Rightarrow> error + string list" where
  "unreadable_workbook p = Inl (OtherError ''XLRDError'')"

definition two_sheets :: "string \<Rightarrow> error + string list" where
  "two_sheets p = Inr [''Sheet1'', ''Sheet2'']"

definition sample_reader :: "path \<Rightarrow> string \<Rightarrow> nat read_outcome" where
  "sample_reader p sheet =
     (if sheet = ''Sheet1'' then Dataset 1
      else if sheet = ''Sheet2'' then InvalidDataFile
      else Raises (OtherError ''no such sheet''))"


section \<open>Properties of the plot configuration box\<close>

lemmas case_defs =
  ascii_lowercase_def ascii_uppercase_def is_ascii_lower_def is_ascii_upper_def
  ascii_upper_char_def ascii_lower_char_def ascii_lower_def ascii_title_def str_replace_def

subsection \<open>The title\<close>

text \<open>
  Claim C5, as stated: without explicit title input and with a base name set, the title
  is the string \<open><base name> - <suffix>\<close> title-cased. The source title-cases the
  suffix only, so the two differ for a base name that is not in title case: for the
  base name \<open>linear fit\<close> and the suffix \<open>residuals\<close> the box returns
  \<open>linear fit - Residuals\<close>, the title-cased string is \<open>Linear Fit - Residuals\<close>.
\<close>

theorem title_counterexample:
  "title ascii_title ((init ''residuals'' True)\<lparr>base_name := Some ''linear fit''\<rparr>)
     = ''linear fit - Residuals''
   \<and> title_as_specified ascii_title ((init ''residuals'' True)\<lparr>base_name := Some ''linear fit''\<rparr>)
     = ''Linear Fit - Residuals''
   \<and> title ascii_title ((init ''residuals'' True)\<lparr>base_name := Some ''linear fit''\<rparr>)
       \<noteq> title_as_specified ascii_title ((init ''residuals'' True)\<lparr>base_name := Some ''linear fit''\<rparr>)"
  by (simp add: title_def title_as_specified_def init_def case_defs)

text \<open>
  Claim C5, amended. For every state of the box, \<open>title\<close> is the explicit title input
  when it is not empty; otherwise, when a base name is set, it is the base name as it
  is, followed by \<open> - \<close> and the suffix title-cased by \<open>str.title\<close> (the suffix
  alone is title-cased); otherwise it is the bare suffix. With base name
  \<open>Linear Fit\<close>, suffix \<open>residuals\<close> and no title input it is
  \<open>Linear Fit - Residuals\<close>, the title case of \<open>residuals\<close> being \<open>Residuals\<close>.
\<close>

theorem title_spec:
  "(title_input s \<noteq> [] \<longrightarrow> title str_title s = title_input s)
   \<and> (title_input s = [] \<and> base_name s = Some b \<longrightarrow>
        title str_title s = b @ '' - '' @ str_title (suffix s))
   \<and> (title_input s = [] \<and> base_name s = None \<longrightarrow> title str_title s = suffix s)
   \<and> (str_title ''residuals'' = ''Residuals'' \<longrightarrow>
        title str_title (s\<lparr>title_input := [], base_name := Some ''Linear Fit'', suffix := ''residuals''\<rparr>)
          = ''Linear Fit - Residuals'')"
  by (simp add: title_def)

theorem title_spec_witness:
  "title ascii_title ((init ''residuals'' True)\<lparr>title_input := ''My plot''\<rparr>) = ''My plot''
   \<and> title ascii_title ((init ''residuals'' True)\<lparr>base_name := Some ''Linear Fit''\<rparr>)
       = ''Linear Fit - Residuals''
   \<and> title ascii_title (init ''residuals'' True) = ''residuals''
   \<and> ascii_title ''residuals'' = ''Residuals''
   \<and> title ascii_title
        ((init ''fit'' True)\<lparr>title_input := [], base_name := Some ''Linear Fit'', suffix := ''residuals''\<rparr>)
       = ''Linear Fit - Residuals''"
proof -
  have r: "ascii_title ''residuals'' = ''Residuals''"
    by (simp add: case_defs)
  show ?thesis
    using r
      title_spec [where str_title = ascii_title
        and s = "(init ''residuals'' True)\<lparr>title_input := ''My plot''\<rparr>"]
      title_spec [where str_title = ascii_title
        and s = "(init ''residuals'' True)\<lparr>base_name := Some ''Linear Fit''\<rparr>"
        and b = "''Linear Fit''"]
      title_spec [where str_title = ascii_title and s = "init ''residuals'' True"]
      title_spec [where str_title = ascii_title and s = "init ''fit'' True"]
    by (simp add: init_def)
qed

subsection \<open>The bounds of the custom domain\<close>

text \<open>
  Claim C3. For every state of the box, \<open>xmin\<close> (and likewise \<open>xmax\<close>) returns \<open>None\<close>
  whenever the custom-domain switch is off or the field is empty, whatever the text of
  the field; with the switch on and a non-empty text that \<open>float\<close> rejects it raises
  an \<open>EddingtonException\<close> whose message names the field (so for the text \<open>abc\<close> in
  the field of the minimum); otherwise it returns the value that \<open>float\<close> returns.
\<close>

theorem xmin_xmax_spec:
  "(\<not> x_domain_switch s \<or> x_min_input s = [] \<longrightarrow> xmin float_py s = Inr None)
   \<and> (\<not> x_domain_switch s \<or> x_max_input s = [] \<longrightarrow> xmax float_py s = Inr None)
   \<and> (x_domain_switch s \<and> x_min_input s \<noteq> [] \<and> float_py (x_min_input s) = None \<longrightarrow>
        xmin float_py s = Inl (EddingtonException ''X minimum value must a floating number''))
   \<and> (x_domain_switch s \<and> x_max_input s \<noteq> [] \<and> float_py (x_max_input s) = None \<longrightarrow>
        xmax float_py s = Inl (EddingtonException ''X maximum value must a floating number''))
   \<and> (x_domain_switch s \<and> x_min_input s \<noteq> [] \<and> float_py (x_min_input s) = Some v \<longrightarrow>
        xmin float_py s = Inr (Some v))
   \<and> (x_domain_switch s \<and> x_max_input s \<noteq> [] \<and> float_py (x_max_input s) = Some v \<longrightarrow>
        xmax float_py s = Inr (Some v))
   \<and> (float_py ''abc'' = None \<longrightarrow>
        xmin float_py (s\<lparr>x_domain_switch := True, x_min_input := ''abc''\<rparr>)
          = Inl (EddingtonException ''X minimum value must a floating number''))"
  by (simp add: xmin_def xmax_def)

theorem xmin_xmax_spec_witness:
  "xmin float_int_literal ((init ''fit'' True)\<lparr>x_min_input := ''abc''\<rparr>) = Inr None
   \<and> xmax float_int_literal ((init ''fit'' True)\<lparr>x_domain_switch := True\<rparr>) = Inr None
   \<and> xmin float_int_literal ((init ''fit'' True)\<lparr>x_domain_switch := True, x_min_input := ''abc'', x_max_input := ''12''\<rparr>)
        = Inl (EddingtonException ''X minimum value must a floating number'')
   \<and> xmax float_int_literal ((init ''fit'' True)\<lparr>x_domain_switch := True, x_min_input := ''-3'', x_max_input := ''1x''\<rparr>)
        = Inl (EddingtonException ''X maximum value must a floating number'')
   \<and> xmin float_int_literal ((init ''fit'' True)\<lparr>x_domain_switch := True, x_min_input := ''-3'', x_max_input := ''1x''\<rparr>)
        = Inr (Some (- 3))
   \<and> xmax float_int_literal ((init ''fit'' True)\<lparr>x_domain_switch := True, x_min_input := ''abc'', x_max_input := ''12''\<rparr>)
        = Inr (Some 12)"
  using xmin_xmax_spec [of "(init ''fit'' True)\<lparr>x_min_input := ''abc''\<rparr>" float_int_literal]
    xmin_xmax_spec [of "(init ''fit'' True)\<lparr>x_domain_switch := True\<rparr>" float_int_literal]
    xmin_xmax_spec [of "(init ''fit'' True)\<lparr>x_domain_switch := True, x_min_input := ''abc'', x_max_input := ''12''\<rparr>" float_int_literal 12]
    xmin_xmax_spec [of "(init ''fit'' True)\<lparr>x_domain_switch := True, x_min_input := ''-3'', x_max_input := ''1x''\<rparr>" float_int_literal "- 3"]
  by (simp add: init_def float_int_literal_def digit_value_def)

subsection \<open>The custom-domain switch\<close>

lemma reachable_bounds_visible:
  "reachable hl s \<Longrightarrow>
     (x_min_title s = VISIBLE) = x_domain_switch s
   \<and> (x_min_input_visibility s = VISIBLE) = x_domain_switch s
   \<and> (x_max_title s = VISIBLE) = x_domain_switch s
   \<and> (x_max_input_visibility s = VISIBLE) = x_domain_switch s"
proof (induction rule: reachable.induct)
  case (legend_toggled s s')
  then show ?case
    by (auto simp: toggle_legend_switch_def split: option.splits)
next
  case (data_loaded s d)
  then show ?case
    by (cases d) (auto simp: on_fitting_data_load_def)
qed (simp_all add: init_def toggle_grid_switch_def toggle_x_log_scale_def toggle_y_log_scale_def
      toggle_x_domain_switch_def x_domain_switch_handler_def on_fitting_function_load_def)

text \<open>
  Claim C4. Toggling the custom-domain switch off clears the text of both bound fields
  and hides the two labels and the two inputs; toggling it on reveals all four. So
  after every toggle each of the four widgets is visible if and only if the switch is
  on, and the same holds in every state that a constructed box can reach.
\<close>

theorem x_domain_toggle_spec:
  "(x_domain_switch s \<longrightarrow>
      \<not> x_domain_switch (toggle_x_domain_switch s)
      \<and> x_min_input (toggle_x_domain_switch s) = []
      \<and> x_max_input (toggle_x_domain_switch s) = []
      \<and> x_min_title (toggle_x_domain_switch s) = HIDDEN
      \<and> x_min_input_visibility (toggle_x_domain_switch s) = HIDDEN
      \<and> x_max_title (toggle_x_domain_switch s) = HIDDEN
      \<and> x_max_input_visibility (toggle_x_domain_switch s) = HIDDEN)
   \<and> (\<not> x_domain_switch s \<longrightarrow>
      x_domain_switch (toggle_x_domain_switch s)
      \<and> x_min_title (toggle_x_domain_switch s) = VISIBLE
      \<and> x_min_input_visibility (toggle_x_domain_switch s) = VISIBLE
      \<and> x_max_title (toggle_x_domain_switch s) = VISIBLE
      \<and> x_max_input_visibility (toggle_x_domain_switch s) = VISIBLE)
   \<and> (x_min_title (toggle_x_domain_switch s) = VISIBLE) = x_domain_switch (toggle_x_domain_switch s)
   \<and> (x_min_input_visibility (toggle_x_domain_switch s) = VISIBLE) = x_domain_switch (toggle_x_domain_switch s)
   \<and> (x_max_title (toggle_x_domain_switch s) = VISIBLE) = x_domain_switch (toggle_x_domain_switch s)
   \<and> (x_max_input_visibility (toggle_x_domain_switch s) = VISIBLE) = x_domain_switch (toggle_x_domain_switch s)
   \<and> (reachable hl s \<longrightarrow>
        (x_min_title s = VISIBLE) = x_domain_switch s
      \<and> (x_min_input_visibility s = VISIBLE) = x_domain_switch s
      \<and> (x_max_title s = VISIBLE) = x_domain_switch s
      \<and> (x_max_input_visibility s = VISIBLE) = x_domain_switch s)"
  using reachable_bounds_visible [of hl s]
  by (simp add: toggle_x_domain_switch_def x_domain_switch_handler_def)

theorem x_domain_toggle_spec_witness:
  "x_domain_switch (toggle_x_domain_switch (init ''fit'' True))
   \<and> x_min_input_visibility (toggle_x_domain_switch (init ''fit'' True)) = VISIBLE
   \<and> \<not> x_domain_switch (toggle_x_domain_switch
          ((toggle_x_domain_switch (init ''fit'' True))\<lparr>x_min_input := ''1'', x_max_input := ''2''\<rparr>))
   \<and> x_min_input (toggle_x_domain_switch
          ((toggle_x_domain_switch (init ''fit'' True))\<lparr>x_min_input := ''1'', x_max_input := ''2''\<rparr>)) = []
   \<and> x_max_input_visibility (toggle_x_domain_switch
          ((toggle_x_domain_switch (init ''fit'' True))\<lparr>x_min_input := ''1'', x_max_input := ''2''\<rparr>)) = HIDDEN
   \<and> reachable True (toggle_x_domain_switch (init ''fit'' True))"
proof -
  have r: "reachable True (toggle_x_domain_switch (init ''fit'' True))"
    by (intro reachable.x_domain_toggled reachable.constructed)
  have off: "\<not> x_domain_switch (init ''fit'' True)"
    by (simp add: init_def)
  have on: "x_domain_switch
      ((toggle_x_domain_switch (init ''fit'' True))\<lparr>x_min_input := ''1'', x_max_input := ''2''\<rparr>)"
    by (simp add: init_def toggle_x_domain_switch_def x_domain_switch_handler_def)
  show ?thesis
    using r off on
      x_domain_toggle_spec [of "init ''fit'' True" True]
      x_domain_toggle_spec [of
        "(toggle_x_domain_switch (init ''fit'' True))\<lparr>x_min_input := ''1'', x_max_input := ''2''\<rparr>" True]
    by simp
qed

subsection \<open>The legend\<close>

lemma reachable_no_legend_switch: "reachable False s \<Longrightarrow> legend_switch s = None \<and> \<not> has_legend s"
proof (induction rule: reachable.induct)
  case (legend_toggled s s')
  then show ?case
    by (auto simp: toggle_legend_switch_def split: option.splits)
next
  case (data_loaded s d)
  then show ?case
    by (cases d) (auto simp: on_fitting_data_load_def)
qed (simp_all add: init_def toggle_grid_switch_def toggle_x_log_scale_def toggle_y_log_scale_def
      toggle_x_domain_switch_def x_domain_switch_handler_def on_fitting_function_load_def)

text \<open>
  Claim C10. The getter \<open>legend\<close> has no failing branch. For a box without legend
  switch it is \<open>False\<close>, and every state reachable from a box constructed with
  \<open>has_legend = False\<close> is such a state, whatever the other widgets hold.
\<close>

theorem legend_without_support:
  "(legend_switch s = None \<longrightarrow> legend s = False)
   \<and> (reachable False s \<longrightarrow> legend s = False)"
  using reachable_no_legend_switch [of s] by (auto simp: legend_def)

theorem legend_without_support_witness:
  "legend_switch (toggle_grid_switch (init ''fit'' False)) = None
   \<and> reachable False (toggle_grid_switch (init ''fit'' False))
   \<and> legend (toggle_grid_switch (init ''fit'' False)) = False"
proof -
  have r: "reachable False (toggle_grid_switch (init ''fit'' False))"
    by (intro reachable.grid_toggled reachable.constructed)
  have n: "legend_switch (toggle_grid_switch (init ''fit'' False)) = None"
    by (simp add: toggle_grid_switch_def init_def)
  show ?thesis
    using r n legend_without_support [of "toggle_grid_switch (init ''fit'' False)"] by simp
qed

subsection \<open>The keyword arguments\<close>

text \<open>
  Claim C7, as stated: for every state of the box \<open>get_plot_kwargs\<close> returns the bundle.
  With the custom domain on and the text \<open>abc\<close> in the field of the minimum it returns
  nothing: the failure of \<open>xmin\<close> leaves \<open>get_plot_kwargs\<close>.
\<close>

theorem get_plot_kwargs_counterexample:
  "get_plot_kwargs ascii_title float_int_literal
     ((init ''fit'' True)\<lparr>x_domain_switch := True, x_min_input := ''abc''\<rparr>)
   = Inl (EddingtonException ''X minimum value must a floating number'')"
  by (simp add: get_plot_kwargs_def xmin_def init_def float_int_literal_def digit_value_def)

text \<open>
  Claim C7, amended. For every state of the box in which \<open>xmin\<close> and \<open>xmax\<close> return,
  \<open>get_plot_kwargs\<close> returns exactly the keys \<open>title_name\<close>, \<open>xlabel\<close>, \<open>ylabel\<close>,
  \<open>grid\<close>, \<open>x_log_scale\<close>, \<open>y_log_scale\<close>, \<open>xmin\<close>, \<open>xmax\<close>, each with the value of
  its getter, and the key \<open>legend\<close> (with the value of the getter) if and only if the
  box was constructed with legend support. In a state in which \<open>xmin\<close> or \<open>xmax\<close>
  raises, \<open>get_plot_kwargs\<close> raises the same failure.
\<close>

theorem get_plot_kwargs_spec:
  "(xmin float_py s = Inr mn \<and> xmax float_py s = Inr mx \<longrightarrow>
      (\<exists>kwargs. get_plot_kwargs str_title float_py s = Inr kwargs
         \<and> map fst kwargs =
             [''title_name'', ''xlabel'', ''ylabel'', ''grid'', ''x_log_scale'', ''y_log_scale'',
              ''xmin'', ''xmax''] @ (if has_legend s then [''legend''] else [])
         \<and> map_of kwargs ''title_name'' = Some (Str (title str_title s))
         \<and> map_of kwargs ''xlabel'' = Some (OptStr (xlabel s))
         \<and> map_of kwargs ''ylabel'' = Some (OptStr (ylabel s))
         \<and> map_of kwargs ''grid'' = Some (Flag (grid s))
         \<and> map_of kwargs ''x_log_scale'' = Some (Flag (x_log_scale s))
         \<and> map_of kwargs ''y_log_scale'' = Some (Flag (y_log_scale s))
         \<and> map_of kwargs ''xmin'' = Some (Bound mn)
         \<and> map_of kwargs ''xmax'' = Some (Bound mx)
         \<and> map_of kwargs ''legend'' = (if has_legend s then Some (Flag (legend s)) else None)))
   \<and> (xmin float_py s = Inl e \<longrightarrow> get_plot_kwargs str_title float_py s = Inl e)
   \<and> (xmin float_py s = Inr mn \<and> xmax float_py s = Inl e \<longrightarrow> get_plot_kwargs str_title float_py s = Inl e)"
  by (simp add: get_plot_kwargs_def)

theorem get_plot_kwargs_spec_witness:
  "xmin float_int_literal
     ((init ''fit'' False)\<lparr>x_domain_switch := True, x_min_input := ''-3'', x_max_input := ''12''\<rparr>)
     = Inr (Some (- 3))
   \<and> xmax float_int_literal
     ((init ''fit'' False)\<lparr>x_domain_switch := True, x_min_input := ''-3'', x_max_input := ''12''\<rparr>)
     = Inr (Some 12)
   \<and> (\<exists>kwargs.
        get_plot_kwargs ascii_title float_int_literal
          ((init ''fit'' False)\<lparr>x_domain_switch := True, x_min_input := ''-3'', x_max_input := ''12''\<rparr>)
          = Inr kwargs
        \<and> map fst kwargs =
            [''title_name'', ''xlabel'', ''ylabel'', ''grid'', ''x_log_scale'', ''y_log_scale'',
             ''xmin'', ''xmax'']
        \<and> map_of kwargs ''title_name'' = Some (Str ''fit'')
        \<and> map_of kwargs ''xmin'' = Some (Bound (Some (- 3)))
        \<and> map_of kwargs ''xmax'' = Some (Bound (Some 12))
        \<and> map_of kwargs ''legend'' = None)
   \<and> xmax float_int_literal
     ((init ''fit'' True)\<lparr>x_domain_switch := True, x_min_input := ''-3'', x_max_input := ''1x''\<rparr>)
     = Inl (EddingtonException ''X maximum value must a floating number'')
   \<and> get_plot_kwargs ascii_title float_int_literal
     ((init ''fit'' True)\<lparr>x_domain_switch := True, x_min_input := ''-3'', x_max_input := ''1x''\<rparr>)
     = Inl (EddingtonException ''X maximum value must a floating number'')"
proof -
  let ?s = "(init ''fit'' False)\<lparr>x_domain_switch := True, x_min_input := ''-3'', x_max_input := ''12''\<rparr>"
  let ?t = "(init ''fit'' True)\<lparr>x_domain_switch := True, x_min_input := ''-3'', x_max_input := ''1x''\<rparr>"
  have a: "xmin float_int_literal ?s = Inr (Some (- 3))"
    by (simp add: xmin_def init_def float_int_literal_def digit_value_def)
  have b: "xmax float_int_literal ?s = Inr (Some 12)"
    by (simp add: xmax_def init_def float_int_literal_def digit_value_def)
  have c: "xmin float_int_literal ?t = Inr (Some (- 3))"
    by (simp add: xmin_def init_def float_int_literal_def digit_value_def)
  have d: "xmax float_int_literal ?t = Inl (EddingtonException ''X maximum value must a floating number'')"
    by (simp add: xmax_def init_def float_int_literal_def digit_value_def)
  have t: "title ascii_title ?s = ''fit''" "has_legend ?s = False"
    by (simp_all add: title_def init_def)
  show ?thesis
    using a b c d t
      get_plot_kwargs_spec [where str_title = ascii_title and float_py = float_int_literal
        and s = ?s and mn = "Some (- 3)" and mx = "Some 12"]
      get_plot_kwargs_spec [where str_title = ascii_title and float_py = float_int_literal
        and s = ?t and mn = "Some (- 3)"
        and e = "EddingtonException ''X maximum value must a floating number''"]
    by auto
qed

subsection \<open>The figure builder\<close>

text \<open>
  Claim C8, as stated: no instruction is attached for an empty title, and the callback is
  called exactly once in every state. A box with empty suffix, no base name and no
  title input has the empty title, and \<open>add_title\<close> is attached for it, since the
  source tests the title against \<open>None\<close>. And with the custom domain on and the text
  \<open>abc\<close> in the field of the minimum, the failure of \<open>xmin\<close> leaves
  \<open>build_figure_builder\<close> before the callback is called.
\<close>

theorem build_figure_builder_counterexample:
  "build_figure_builder ascii_title float_int_literal plot_data (init [] False)
     = Inr ([add_title [], plot_instruction ()],
            [([add_title []], \<lparr> min_val = None, max_val = None \<rparr>)])
   \<and> build_figure_builder ascii_title float_int_literal plot_data
       ((init ''fit'' False)\<lparr>x_domain_switch := True, x_min_input := ''abc''\<rparr>)
     = Inl (EddingtonException ''X minimum value must a floating number'')"
  by (simp add: build_figure_builder_def Let_def interval_def xmin_def xmax_def init_def title_def
      xlabel_def ylabel_def grid_def legend_def plot_data_def float_int_literal_def digit_value_def)

text \<open>
  Claim C8, amended. For every state of the box in which \<open>xmin\<close> and \<open>xmax\<close> return,
  \<open>build_figure_builder\<close> starts from a fresh builder and attaches, in this order, the
  title (always: the title is a string and is never \<open>None\<close>, also when it is empty),
  the x-label and the y-label each when its getter is not \<open>None\<close>, the grid when
  the grid flag is set and the legend when the legend flag is set, and nothing else;
  then it calls the callback exactly once, with that builder and the interval. In a
  state in which \<open>xmin\<close> or \<open>xmax\<close> raises, the failure propagates.
\<close>

theorem build_figure_builder_spec:
  "(interval float_py s = Inr iv \<longrightarrow>
      (\<exists>fb. build_figure_builder str_title float_py additional_instructions s
               = Inr (additional_instructions fb iv, [(fb, iv)])
         \<and> fb = [add_title (title str_title s)]
                @ (case xlabel s of Some l \<Rightarrow> [add_xlabel l] | None \<Rightarrow> [])
                @ (case ylabel s of Some l \<Rightarrow> [add_ylabel l] | None \<Rightarrow> [])
                @ (if grid s then [add_grid] else [])
                @ (if legend s then [add_legend] else [])
         \<and> (\<forall>t. add_title t \<in> set fb \<longleftrightarrow> t = title str_title s)
         \<and> (\<forall>l. add_xlabel l \<in> set fb \<longleftrightarrow> xlabel s = Some l)
         \<and> (\<forall>l. add_ylabel l \<in> set fb \<longleftrightarrow> ylabel s = Some l)
         \<and> (add_grid \<in> set fb \<longleftrightarrow> grid s)
         \<and> (add_legend \<in> set fb \<longleftrightarrow> legend s)
         \<and> (\<forall>x. plot_instruction x \<notin> set fb)))
   \<and> (interval float_py s = Inl e \<longrightarrow>
        build_figure_builder str_title float_py additional_instructions s = Inl e)"
  by (auto simp: build_figure_builder_def Let_def split: option.splits)

theorem build_figure_builder_spec_witness:
  "interval float_int_literal
     ((init ''fit'' True)\<lparr>xlabel_input := ''time'', grid_switch := True\<rparr>)
     = Inr \<lparr> min_val = None, max_val = None \<rparr>
   \<and> build_figure_builder ascii_title float_int_literal plot_data
       ((init ''fit'' True)\<lparr>xlabel_input := ''time'', grid_switch := True\<rparr>)
     = Inr ([add_title ''fit'', add_xlabel ''time'', add_grid, plot_instruction ()],
            [([add_title ''fit'', add_xlabel ''time'', add_grid], \<lparr> min_val = None, max_val = None \<rparr>)])
   \<and> interval float_int_literal
       ((init ''fit'' True)\<lparr>x_domain_switch := True, x_max_input := ''abc''\<rparr>)
     = Inl (EddingtonException ''X maximum value must a floating number'')
   \<and> build_figure_builder ascii_title float_int_literal plot_data
       ((init ''fit'' True)\<lparr>x_domain_switch := True, x_max_input := ''abc''\<rparr>)
     = Inl (EddingtonException ''X maximum value must a floating number'')"
proof -
  let ?s = "(init ''fit'' True)\<lparr>xlabel_input := ''time'', grid_switch := True\<rparr>"
  let ?t = "(init ''fit'' True)\<lparr>x_domain_switch := True, x_max_input := ''abc''\<rparr>"
  have a: "interval float_int_literal ?s = Inr \<lparr> min_val = None, max_val = None \<rparr>"
    by (simp add: interval_def xmin_def xmax_def init_def)
  have b: "interval float_int_literal ?t
           = Inl (EddingtonException ''X maximum value must a floating number'')"
    by (simp add: interval_def xmin_def xmax_def init_def float_int_literal_def digit_value_def)
  have g: "title ascii_title ?s = ''fit''" "xlabel ?s = Some ''time''" "ylabel ?s = None" "grid ?s" "\<not> legend ?s"
    by (simp_all add: title_def xlabel_def ylabel_def grid_def legend_def init_def)
  show ?thesis
    using a b g
      build_figure_builder_spec [where str_title = ascii_title and float_py = float_int_literal
        and s = ?s and iv = "\<lparr> min_val = None, max_val = None \<rparr>"
        and additional_instructions = plot_data]
      build_figure_builder_spec [where str_title = ascii_title and float_py = float_int_literal
        and s = ?t and additional_instructions = plot_data
        and e = "EddingtonException ''X maximum value must a floating number''"]
    by (auto simp: plot_data_def)
qed

subsection \<open>The file name\<close>

text \<open>
  Claim C9. For every state of the box, \<open>file_name\<close> is the suffix with spaces replaced
  by underscores, followed by \<open>.png\<close>, preceded by the base name (spaces replaced by
  underscores) and an underscore when a base name is set, and the whole lower-cased by
  \<open>str.lower\<close>. With no base name and suffix \<open>fit\<close> it is \<open>fit.png\<close>, the lower
  case of \<open>fit.png\<close> being \<open>fit.png\<close>.
\<close>

theorem file_name_spec:
  "file_name str_lower s =
     str_lower
       ((case base_name s of
           None \<Rightarrow> []
         | Some b \<Rightarrow> str_replace CHR '' '' CHR ''_'' b @ ''_'')
        @ str_replace CHR '' '' CHR ''_'' (suffix s) @ ''.png'')
   \<and> (str_lower ''fit.png'' = ''fit.png'' \<longrightarrow>
        file_name str_lower (s\<lparr>base_name := None, suffix := ''fit''\<rparr>) = ''fit.png'')"
  by (simp add: file_name_def str_replace_def split: option.split)

theorem file_name_spec_witness:
  "file_name ascii_lower ((init ''Fit Plot'' True)\<lparr>base_name := Some ''Linear Fit''\<rparr>)
     = ''linear_fit_fit_plot.png''
   \<and> ascii_lower ''fit.png'' = ''fit.png''
   \<and> file_name ascii_lower ((init ''Fit Plot'' True)\<lparr>base_name := None, suffix := ''fit''\<rparr>)
     = ''fit.png''"
proof -
  have l: "ascii_lower ''fit.png'' = ''fit.png''"
    by (simp add: case_defs)
  show ?thesis
    using l
      file_name_spec [where str_lower = ascii_lower
        and s = "(init ''Fit Plot'' True)\<lparr>base_name := Some ''Linear Fit''\<rparr>"]
    by (simp add: init_def case_defs)
qed

section \<open>Properties of the input file box\<close>

lemma call_handlers_eq: "call_handlers hs d tr = tr @ map (\<lambda>h. handler_called h d) hs"
  by (induction hs arbitrary: tr) simp_all

lemmas box_defs =
  file_path_def set_file_path_def sheets_options_def set_sheets_options_def
  data_dict_def set_data_dict_def add_handler_def

lemma suffix_xlsx: "path_suffix (Path ''book.xlsx'') = ''.xlsx''"
  by (simp add: path_suffix_def Path_def name_def rfind_def)

lemma suffix_csv: "path_suffix (Path ''/home/user/data.csv'') = ''.csv''"
  by (simp add: path_suffix_def Path_def name_def rfind_def)

lemma suffix_hidden: "path_suffix (Path ''dir/.xlsx'') = []"
  by (simp add: path_suffix_def Path_def name_def rfind_def)

lemma name_book: "name (Path ''/home/user/book.xlsx'') = ''book.xlsx''"
  by (simp add: Path_def name_def)

subsection \<open>Selecting a file\<close>

text \<open>
  Claim C1, as stated: whenever the user selects a file whose extension is \<open>.xlsx\<close> or
  \<open>.xls\<close>, the sheet selection is filled and enabled and the data dictionary is
  cleared. For a file \<open>book.xlsx\<close> that the spreadsheet reader cannot open, the
  failure of the reader leaves \<open>select_file\<close> after the path is stored: the selection
  stays empty and disabled, and the data dictionary loaded before is still there.
\<close>

theorem select_file_counterexample:
  "fst (select_file ''-'' (Some ''book.xlsx'') unreadable_workbook 0
          (set_data_dict 0 (Some (5::nat)) initial_world))
     = Some (OtherError ''XLRDError'')
   \<and> file_path 0 (snd (select_file ''-'' (Some ''book.xlsx'') unreadable_workbook 0
          (set_data_dict 0 (Some (5::nat)) initial_world))) = ''book.xlsx''
   \<and> data_dict 0 (snd (select_file ''-'' (Some ''book.xlsx'') unreadable_workbook 0
          (set_data_dict 0 (Some (5::nat)) initial_world))) = Some 5
   \<and> sheets_options 0 (snd (select_file ''-'' (Some ''book.xlsx'') unreadable_workbook 0
          (set_data_dict 0 (Some (5::nat)) initial_world))) = []
   \<and> \<not> select_sheet_enabled (boxes (snd (select_file ''-'' (Some ''book.xlsx'') unreadable_workbook 0
          (set_data_dict 0 (Some (5::nat)) initial_world))) 0)"
  by (simp add: select_file_def suffix_xlsx unreadable_workbook_def box_defs initial_world_def
      new_box_def Let_def)

text \<open>
  Claim C1, amended. If the user cancels the dialog, \<open>select_file\<close> leaves the whole
  state as it is. If the user selects a file, the path is stored as \<open>file_path\<close> in
  every case, also when the spreadsheet reader then fails; if
  its extension is not \<open>.xlsx\<close> or \<open>.xls\<close>, the sheet selection is emptied and
  disabled; if it is and the spreadsheet reader returns the sheet names, the sheet
  selection holds \<open>NO_VALUE\<close> followed by every sheet name in file order and is
  enabled; in both of these cases the data dictionary is cleared.
\<close>

theorem select_file_spec:
  "select_file no_value None sheet_names i w = (None, w)
   \<and> file_path i (snd (select_file no_value (Some p) sheet_names i w)) = p
   \<and> (path_suffix (Path p) \<notin> set [''.xlsx'', ''.xls''] \<longrightarrow>
        fst (select_file no_value (Some p) sheet_names i w) = None
      \<and> file_path i (snd (select_file no_value (Some p) sheet_names i w)) = p
      \<and> sheets_options i (snd (select_file no_value (Some p) sheet_names i w)) = []
      \<and> \<not> select_sheet_enabled (boxes (snd (select_file no_value (Some p) sheet_names i w)) i)
      \<and> data_dict i (snd (select_file no_value (Some p) sheet_names i w)) = None)
   \<and> (path_suffix (Path p) \<in> set [''.xlsx'', ''.xls''] \<and> sheet_names p = Inr names \<longrightarrow>
        fst (select_file no_value (Some p) sheet_names i w) = None
      \<and> file_path i (snd (select_file no_value (Some p) sheet_names i w)) = p
      \<and> sheets_options i (snd (select_file no_value (Some p) sheet_names i w)) = no_value # names
      \<and> select_sheet_enabled (boxes (snd (select_file no_value (Some p) sheet_names i w)) i)
      \<and> data_dict i (snd (select_file no_value (Some p) sheet_names i w)) = None)"
  by (simp add: select_file_def box_defs Let_def split: sum.split)

theorem select_file_spec_witness:
  "path_suffix (Path ''/home/user/data.csv'') \<notin> set [''.xlsx'', ''.xls'']
   \<and> fst (select_file ''-'' (Some ''/home/user/data.csv'') two_sheets 0
            (set_data_dict 0 (Some (5::nat)) initial_world)) = None
   \<and> file_path 0 (snd (select_file ''-'' (Some ''/home/user/data.csv'') two_sheets 0
            (set_data_dict 0 (Some (5::nat)) initial_world))) = ''/home/user/data.csv''
   \<and> data_dict 0 (snd (select_file ''-'' (Some ''/home/user/data.csv'') two_sheets 0
            (set_data_dict 0 (Some (5::nat)) initial_world))) = None
   \<and> path_suffix (Path ''book.xlsx'') \<in> set [''.xlsx'', ''.xls'']
   \<and> two_sheets ''book.xlsx'' = Inr [''Sheet1'', ''Sheet2'']
   \<and> sheets_options 0 (snd (select_file ''-'' (Some ''book.xlsx'') two_sheets 0
            (set_data_dict 0 (Some (5::nat)) initial_world))) = [''-'', ''Sheet1'', ''Sheet2'']
   \<and> select_sheet_enabled (boxes (snd (select_file ''-'' (Some ''book.xlsx'') two_sheets 0
            (set_data_dict 0 (Some (5::nat)) initial_world))) 0)
   \<and> data_dict 0 (snd (select_file ''-'' (Some ''book.xlsx'') two_sheets 0
            (set_data_dict 0 (Some (5::nat)) initial_world))) = None"
proof -
  have a: "path_suffix (Path ''/home/user/data.csv'') \<notin> set [''.xlsx'', ''.xls'']"
    by (simp add: suffix_csv)
  have b: "path_suffix (Path ''book.xlsx'') \<in> set [''.xlsx'', ''.xls'']"
    by (simp add: suffix_xlsx)
  have c: "two_sheets ''book.xlsx'' = Inr [''Sheet1'', ''Sheet2'']"
    by (simp add: two_sheets_def)
  show ?thesis
    using a b c
      select_file_spec [of "''-''" two_sheets 0 "set_data_dict 0 (Some (5::nat)) initial_world"
        "''/home/user/data.csv''"]
      select_file_spec [of "''-''" two_sheets 0 "set_data_dict 0 (Some (5::nat)) initial_world"
        "''book.xlsx''" "[''Sheet1'', ''Sheet2'']"]
    by simp
qed

subsection \<open>Selecting a sheet\<close>

text \<open>
  Claim C2. For every call of \<open>select_sheet\<close>: if the value is \<open>NO_VALUE\<close>, the data
  dictionary is cleared and no reader is called; otherwise the reader is called with
  the path of the stored file path and the sheet name. When it returns a data
  dictionary, that dictionary is stored. When it raises \<open>InvalidDataFile\<close>, an error
  dialog is shown whose message names the sheet and the file, the data dictionary is
  cleared, and \<open>select_sheet\<close> returns without raising.
\<close>

theorem select_sheet_spec:
  "(value = no_value \<longrightarrow>
        fst (select_sheet no_value reader i value w) = None
      \<and> data_dict i (snd (select_sheet no_value reader i value w)) = None
      \<and> trace (snd (select_sheet no_value reader i value w))
          = trace w @ map (\<lambda>h. handler_called h None) (handlers w))
   \<and> (value \<noteq> no_value \<and> reader (Path (file_path i w)) value = Dataset d \<longrightarrow>
        fst (select_sheet no_value reader i value w) = None
      \<and> data_dict i (snd (select_sheet no_value reader i value w)) = Some d
      \<and> trace (snd (select_sheet no_value reader i value w))
          = trace w @ [read_data_from_excel_called (Path (file_path i w)) value]
              @ map (\<lambda>h. handler_called h (Some d)) (handlers w))
   \<and> (value \<noteq> no_value \<and> reader (Path (file_path i w)) value = InvalidDataFile \<longrightarrow>
        fst (select_sheet no_value reader i value w) = None
      \<and> data_dict i (snd (select_sheet no_value reader i value w)) = None
      \<and> trace (snd (select_sheet no_value reader i value w))
          = trace w @ [read_data_from_excel_called (Path (file_path i w)) value,
                       error_dialog ''Invalid Input Source''
                         ([CHR 0x22] @ value @ [CHR 0x22] @ '' sheet in '' @ [CHR 0x22]
                            @ name (Path (file_path i w)) @ [CHR 0x22] @ '' has invalid syntax'')]
              @ map (\<lambda>h. handler_called h None) (handlers w))"
  by (simp add: select_sheet_def box_defs Let_def call_handlers_eq error_message_def)

theorem select_sheet_spec_witness:
  "data_dict 0 (snd (select_sheet ''-'' sample_reader 0 ''-''
       (set_data_dict 0 (Some 1) (set_file_path 0 ''/home/user/book.xlsx'' (add_handler 0 7 initial_world)))))
     = None
   \<and> sample_reader (Path ''/home/user/book.xlsx'') ''Sheet1'' = Dataset 1
   \<and> data_dict 0 (snd (select_sheet ''-'' sample_reader 0 ''Sheet1''
       (set_file_path 0 ''/home/user/book.xlsx'' (add_handler 0 7 initial_world))))
     = Some 1
   \<and> sample_reader (Path ''/home/user/book.xlsx'') ''Sheet2'' = InvalidDataFile
   \<and> fst (select_sheet ''-'' sample_reader 0 ''Sheet2''
       (set_file_path 0 ''/home/user/book.xlsx'' (add_handler 0 7 initial_world)))
     = None
   \<and> trace (snd (select_sheet ''-'' sample_reader 0 ''Sheet2''
       (set_file_path 0 ''/home/user/book.xlsx'' (add_handler 0 7 initial_world))))
     = [read_data_from_excel_called (Path ''/home/user/book.xlsx'') ''Sheet2'',
        error_dialog ''Invalid Input Source''
          ([CHR 0x22] @ ''Sheet2'' @ [CHR 0x22] @ '' sheet in '' @ [CHR 0x22] @ ''book.xlsx''
             @ [CHR 0x22] @ '' has invalid syntax''),
        handler_called 7 None]"
proof -
  let ?w = "set_file_path 0 ''/home/user/book.xlsx'' (add_handler 0 7 initial_world) :: nat world"
  have p: "file_path 0 ?w = ''/home/user/book.xlsx''"
    "file_path 0 (set_data_dict 0 (Some 1) ?w) = ''/home/user/book.xlsx''"
    by (simp_all add: box_defs)
  have r: "sample_reader (Path ''/home/user/book.xlsx'') ''Sheet1'' = Dataset 1"
    "sample_reader (Path ''/home/user/book.xlsx'') ''Sheet2'' = InvalidDataFile"
    by (simp_all add: sample_reader_def)
  have t: "trace ?w = []" "handlers ?w = [7]"
    by (simp_all add: box_defs initial_world_def)
  show ?thesis
    using p r t name_book
      select_sheet_spec [of "''-''" "''-''" sample_reader 0 "set_data_dict 0 (Some 1) ?w"]
      select_sheet_spec [of "''Sheet1''" "''-''" sample_reader 0 ?w 1]
      select_sheet_spec [of "''Sheet2''" "''-''" sample_reader 0 ?w]
    by simp
qed

subsection \<open>The handlers of two instances\<close>

text \<open>
  Claim C6 says that a change of the data dictionary of one instance calls only the
  handlers registered on that instance. In the source \<open>__handlers\<close> is one list held
  by the class, so \<open>add_handler\<close> on any instance registers the handler for all of
  them: a handler registered on instance \<open>0\<close> is called when the data dictionary of
  instance \<open>1\<close> is set.
\<close>

theorem handlers_shared_between_instances:
  "handlers (add_handler i h w) = handlers w @ [h]
   \<and> handler_called h d \<in> set (trace (set_data_dict j d (add_handler i h w)))
   \<and> trace (set_data_dict 1 (Some (5::nat)) (add_handler 0 7 initial_world))
       = [handler_called 7 (Some 5)]"
  by (simp add: box_defs call_handlers_eq initial_world_def)

end
